theory Spec2Isabelle
  imports Complex_Main
begin

section \<open>Quadcopter rigid-body model (Quadcopter.py)\<close>

text \<open>
  Python floats are modelled as the real numbers and \<open>math.pi\<close> as \<open>pi\<close>; rounding,
  infinities and NaN are outside the model.  A method that mutates \<open>self\<close> becomes a
  function from the object before the call to the object after it.  A float division by
  zero raises \<open>ZeroDivisionError\<close> in Python; since the attribute assignments made before
  the raise stay in place, a raising call returns \<open>Inl\<close> of the error together with the
  object the caller is left with.
\<close>

datatype py_error = ZeroDivisionError

text \<open>The dictionary built by \<open>get_state\<close>: sixteen float entries under fixed keys.\<close>

record vehicle_state =
  x :: real
  y :: real
  z :: real
  vx :: real
  vy :: real
  vz :: real
  roll :: real
  pitch :: real
  yaw :: real
  p :: real
  q :: real
  r :: real
  thrust :: real
  torque_roll :: real
  torque_pitch :: real
  torque_yaw :: real

text \<open>
  The attributes of a \<open>Quadcopter\<close> object: the sixteen above plus the physical parameters
  and the (never appended to) \<open>history\<close> list.  \<open>self.length\<close> is named \<open>arm_length\<close>.
  The attributes \<open>g\<close>, \<open>MAX_ANGLE\<close>, \<open>MAX_VEL\<close> and \<open>MAX_POS\<close> are assigned once in
  \<open>__init__\<close> and never again, so they are constants here.
\<close>

record quad = vehicle_state +
  mass :: real
  arm_length :: real
  Ix :: real
  Iy :: real
  Iz :: real
  history :: "vehicle_state list"

definition g :: real where "g = 981 / 100"
definition MAX_ANGLE :: real where "MAX_ANGLE = 157 / 100"
definition MAX_VEL :: real where "MAX_VEL = 50"
definition MAX_POS :: real where "MAX_POS = 500"

text \<open>
  \<open>Quadcopter.__init__\<close>: \<open>new_quad\<close> is the object the assignments build.  No statement
  of the constructor validates a parameter or can raise, so the constructor call always
  returns that object.
\<close>

definition new_quad :: "real \<Rightarrow> real \<Rightarrow> real \<Rightarrow> real \<Rightarrow> real \<Rightarrow> quad" where
  "new_quad mass0 length0 Ixx Iyy Izz =
     \<lparr> x = 0, y = 0, z = 5 / 2, vx = 0, vy = 0, vz = 0,
       roll = 0, pitch = 0, yaw = 0, p = 0, q = 0, r = 0,
       thrust = 0, torque_roll = 0, torque_pitch = 0, torque_yaw = 0,
       mass = mass0, arm_length = length0, Ix = Ixx, Iy = Iyy, Iz = Izz,
       history = [] \<rparr>"

definition Quadcopter_init :: "real \<Rightarrow> real \<Rightarrow> real \<Rightarrow> real \<Rightarrow> real \<Rightarrow> py_error + quad" where
  "Quadcopter_init mass0 length0 Ixx Iyy Izz = Inr (new_quad mass0 length0 Ixx Iyy Izz)"

definition set_control :: "quad \<Rightarrow> real \<Rightarrow> real \<Rightarrow> real \<Rightarrow> real \<Rightarrow> quad" where
  "set_control qd t_roll t_pitch t_yaw thr =
     qd\<lparr> torque_roll := t_roll, torque_pitch := t_pitch, torque_yaw := t_yaw,
         thrust := max 0 thr \<rparr>"

text \<open>
  The saturation expression \<open>max(-m, min(m, v))\<close> that \<open>step\<close> applies to the angles, the
  velocities and the horizontal position.
\<close>

definition limit :: "real \<Rightarrow> real \<Rightarrow> real" where
  "limit m v = max (- m) (min m v)"

text \<open>The two yaw normalisation loops of \<open>step\<close>.\<close>

function yaw_down :: "real \<Rightarrow> real" where
  "yaw_down a = (if a > pi then yaw_down (a - 2 * pi) else a)"
  by pat_completeness auto
termination
proof (relation "measure (\<lambda>a. nat \<lceil>a\<rceil>)")
  show "wf (measure (\<lambda>a. nat \<lceil>a\<rceil>))" by simp
next
  fix a :: real
  assume "pi < a"
  have "2 \<le> pi" by (rule pi_ge_two)
  then have "a - 2 * pi \<le> a - 1" by simp
  then have "\<lceil>a - 2 * pi\<rceil> \<le> \<lceil>a - 1\<rceil>" by (rule ceiling_mono)
  moreover have "\<lceil>a - 1\<rceil> = \<lceil>a\<rceil> - 1" by simp
  moreover have "0 < \<lceil>a\<rceil>" using \<open>pi < a\<close> \<open>2 \<le> pi\<close> by simp
  ultimately show "(a - 2 * pi, a) \<in> measure (\<lambda>a. nat \<lceil>a\<rceil>)" by simp
qed

function yaw_up :: "real \<Rightarrow> real" where
  "yaw_up a = (if a < - pi then yaw_up (a + 2 * pi) else a)"
  by pat_completeness auto
termination
proof (relation "measure (\<lambda>a. nat \<lceil>- a\<rceil>)")
  show "wf (measure (\<lambda>a. nat \<lceil>- a\<rceil>))" by simp
next
  fix a :: real
  assume "a < - pi"
  have "2 \<le> pi" by (rule pi_ge_two)
  then have "- (a + 2 * pi) \<le> - a - 1" by simp
  then have "\<lceil>- (a + 2 * pi)\<rceil> \<le> \<lceil>- a - 1\<rceil>" by (rule ceiling_mono)
  moreover have "\<lceil>- a - 1\<rceil> = \<lceil>- a\<rceil> - 1" by simp
  moreover have "0 < \<lceil>- a\<rceil>" using \<open>a < - pi\<close> \<open>2 \<le> pi\<close> by simp
  ultimately show "(a + 2 * pi, a) \<in> measure (\<lambda>a. nat \<lceil>- a\<rceil>)" by simp
qed

declare yaw_down.simps [simp del] yaw_up.simps [simp del]

text \<open>
  \<open>Quadcopter.step\<close>.  The three inertia divisions come first, before any attribute is
  assigned; the division by \<open>mass\<close> comes after the angular rates and the Euler angles
  have been written back, so a zero mass leaves the object with its angular part advanced.
\<close>

definition step :: "quad \<Rightarrow> real \<Rightarrow> (py_error \<times> quad) + quad" where
  "step qd dt =
    (if Ix qd = 0 then Inl (ZeroDivisionError, qd) else
     let pdot = torque_roll qd / Ix qd in
     if Iy qd = 0 then Inl (ZeroDivisionError, qd) else
     let qdot = torque_pitch qd / Iy qd in
     if Iz qd = 0 then Inl (ZeroDivisionError, qd) else
     let rdot = torque_yaw qd / Iz qd;
         p1 = p qd + pdot * dt;
         q1 = q qd + qdot * dt;
         r1 = r qd + rdot * dt;
         roll1 = roll qd + p1 * dt;
         pitch1 = pitch qd + q1 * dt;
         yaw1 = yaw qd + r1 * dt;
         roll2 = limit MAX_ANGLE roll1;
         pitch2 = limit MAX_ANGLE pitch1;
         yaw2 = yaw_up (yaw_down yaw1);
         cr = cos roll2; sr = sin roll2;
         cp = cos pitch2; sp = sin pitch2;
         cy = cos yaw2; sy = sin yaw2;
         r13 = cy * sp * cr + sy * sr;
         r23 = sy * sp * cr - cy * sr;
         r33 = cp * cr;
         fx = thrust qd * r13;
         fy = thrust qd * r23;
         fz = thrust qd * r33 - mass qd * g;
         qa = qd\<lparr> p := p1, q := q1, r := r1, roll := roll2, pitch := pitch2, yaw := yaw2 \<rparr>
     in if mass qd = 0 then Inl (ZeroDivisionError, qa) else
     let ax = fx / mass qd;
         ay = fy / mass qd;
         az = fz / mass qd;
         vx2 = limit MAX_VEL (vx qd + ax * dt);
         vy2 = limit MAX_VEL (vy qd + ay * dt);
         vz2 = limit MAX_VEL (vz qd + az * dt);
         x1 = x qd + vx2 * dt;
         y1 = y qd + vy2 * dt;
         z1 = z qd + vz2 * dt;
         z2 = (if z1 < 0 then 0 else z1);
         vz3 = (if z1 < 0 then 0 else vz2)
     in Inr (qa\<lparr> vx := vx2, vy := vy2, vz := vz3,
                  x := limit MAX_POS x1,
                  y := limit MAX_POS y1,
                  z := max 0 (min MAX_POS z2) \<rparr>))"

definition get_state :: "quad \<Rightarrow> vehicle_state" where
  "get_state qd = vehicle_state.truncate qd"

definition reset :: "quad \<Rightarrow> quad" where
  "reset qd = qd\<lparr> x := 0, y := 0, z := 5 / 2, vx := 0, vy := 0, vz := 0,
                   roll := 0, pitch := 0, yaw := 0, p := 0, q := 0, r := 0,
                   history := [] \<rparr>"

text \<open>The object a caller holds after a call, whether the call returned or raised.\<close>

definition after :: "(py_error \<times> quad) + quad \<Rightarrow> quad" where
  "after res = (case res of Inl (e, qd) \<Rightarrow> qd | Inr qd \<Rightarrow> qd)"

text \<open>Sequences of method calls on one \<open>Quadcopter\<close> object.\<close>

datatype quad_call = SetControl real real real real | Step real | Reset

fun call_quad :: "quad \<Rightarrow> quad_call \<Rightarrow> quad" where
  "call_quad qd (SetControl t_roll t_pitch t_yaw thr) = set_control qd t_roll t_pitch t_yaw thr"
| "call_quad qd (Step dt) = after (step qd dt)"
| "call_quad qd Reset = reset qd"

definition run_quad :: "quad \<Rightarrow> quad_call list \<Rightarrow> quad" where
  "run_quad qd calls = foldl call_quad qd calls"

text \<open>
  The envelope the saturations of \<open>step\<close> keep the object in: roll and pitch within
  \<open>MAX_ANGLE\<close>, yaw within one turn, velocities within \<open>MAX_VEL\<close>, horizontal position
  within \<open>MAX_POS\<close> and altitude between the ground and \<open>MAX_POS\<close>.
\<close>

definition in_envelope :: "quad \<Rightarrow> bool" where
  "in_envelope qd \<longleftrightarrow>
     - MAX_ANGLE \<le> roll qd \<and> roll qd \<le> MAX_ANGLE \<and>
     - MAX_ANGLE \<le> pitch qd \<and> pitch qd \<le> MAX_ANGLE \<and>
     - pi \<le> yaw qd \<and> yaw qd \<le> pi \<and>
     - MAX_VEL \<le> vx qd \<and> vx qd \<le> MAX_VEL \<and>
     - MAX_VEL \<le> vy qd \<and> vy qd \<le> MAX_VEL \<and>
     - MAX_VEL \<le> vz qd \<and> vz qd \<le> MAX_VEL \<and>
     - MAX_POS \<le> x qd \<and> x qd \<le> MAX_POS \<and>
     - MAX_POS \<le> y qd \<and> y qd \<le> MAX_POS \<and>
     0 \<le> z qd \<and> z qd \<le> MAX_POS"

text \<open>\<open>n\<close> consecutive \<open>step(dt)\<close> calls; the first one that raises ends the run.\<close>

fun steps :: "quad \<Rightarrow> real \<Rightarrow> nat \<Rightarrow> (py_error \<times> quad) + quad" where
  "steps qd dt 0 = Inr qd"
| "steps qd dt (Suc n) =
     (case steps qd dt n of Inl e \<Rightarrow> Inl e | Inr qd' \<Rightarrow> step qd' dt)"

section \<open>PID controller (pid_controller.py)\<close>

text \<open>
  The attributes of a \<open>PID\<close> object.  \<open>integrator_limit\<close> is \<open>None\<close> or a number.
\<close>

record pid =
  kp :: real
  ki :: real
  kd :: real
  integrator_limit :: "real option"
  derivative_filter_tau :: real
  integral :: real
  prev_error :: real
  filtered_derivative :: real
  first_call :: bool

definition PID_init :: "real \<Rightarrow> real \<Rightarrow> real \<Rightarrow> real option \<Rightarrow> real \<Rightarrow> pid" where
  "PID_init kp0 ki0 kd0 limit0 tau =
     \<lparr> kp = kp0, ki = ki0, kd = kd0, integrator_limit = limit0, derivative_filter_tau = tau,
       integral = 0, prev_error = 0, filtered_derivative = 0, first_call = True \<rparr>"

definition PID_reset :: "pid \<Rightarrow> pid" where
  "PID_reset s = s\<lparr> integral := 0, prev_error := 0, filtered_derivative := 0,
                    first_call := True \<rparr>"

text \<open>
  \<open>PID.update\<close>.  The integral is written back first.  The raw derivative is guarded by
  \<open>dt > 0\<close>; the filter coefficient \<open>dt / (dt + tau)\<close> is not, so it raises when
  \<open>dt = - tau\<close>, after the integral has been updated and before \<open>prev_error\<close> is.
\<close>

definition PID_update :: "pid \<Rightarrow> real \<Rightarrow> real \<Rightarrow> (py_error \<times> pid) + (pid \<times> real)" where
  "PID_update s error dt =
    (let p_term = kp s * error;
         integral1 = integral s + error * dt;
         integral2 = (case integrator_limit s of
                        None \<Rightarrow> integral1
                      | Some limit0 \<Rightarrow> limit limit0 integral1);
         i_term = ki s * integral2;
         s1 = s\<lparr> integral := integral2 \<rparr>
     in if first_call s then
          let d_term = 0
          in Inr (s1\<lparr> first_call := False, prev_error := error \<rparr>, p_term + i_term + d_term)
        else
          let raw_derivative = (if dt > 0 then (error - prev_error s) / dt else 0)
          in if derivative_filter_tau s > 0 then
               if dt + derivative_filter_tau s = 0 then Inl (ZeroDivisionError, s1)
               else
                 let alpha = dt / (dt + derivative_filter_tau s);
                     fd = alpha * raw_derivative + (1 - alpha) * filtered_derivative s;
                     d_term = kd s * fd
                 in Inr (s1\<lparr> filtered_derivative := fd, prev_error := error \<rparr>,
                         p_term + i_term + d_term)
             else
               let d_term = kd s * raw_derivative
               in Inr (s1\<lparr> prev_error := error \<rparr>, p_term + i_term + d_term))"

text \<open>The \<open>PID\<close> object a caller holds after an \<open>update\<close> call, returned or raised.\<close>

definition pid_after :: "(py_error \<times> pid) + (pid \<times> real) \<Rightarrow> pid" where
  "pid_after res = (case res of Inl (e, s) \<Rightarrow> s | Inr (s, out) \<Rightarrow> s)"

section \<open>Cascaded controller (pid_controller.py)\<close>

record controller =
  alt_pid :: pid
  roll_pid :: pid
  pitch_pid :: pid
  yaw_pid :: pid

definition CascadedController_init :: controller where
  "CascadedController_init =
     \<lparr> alt_pid = PID_init 10 2 5 (Some (5 / 2)) (2 / 100),
       roll_pid = PID_init 2 (1 / 10) 1 (Some (1 / 10)) (8 / 100),
       pitch_pid = PID_init 2 (1 / 10) 1 (Some (1 / 10)) (8 / 100),
       yaw_pid = PID_init 1 (5 / 100) (1 / 2) (Some (5 / 100)) (8 / 100) \<rparr>"

definition controller_reset :: "controller \<Rightarrow> controller" where
  "controller_reset c =
     c\<lparr> alt_pid := PID_reset (alt_pid c), roll_pid := PID_reset (roll_pid c),
        pitch_pid := PID_reset (pitch_pid c), yaw_pid := PID_reset (yaw_pid c) \<rparr>"

text \<open>
  \<open>CascadedController.update_altitude\<close>; the parameters \<open>mass\<close> and \<open>g\<close> are named
  \<open>mass0\<close> and \<open>g0\<close>.
\<close>

definition update_altitude ::
  "controller \<Rightarrow> real \<Rightarrow> real \<Rightarrow> real \<Rightarrow> real \<Rightarrow> real \<Rightarrow> real
     \<Rightarrow> (py_error \<times> controller) + (controller \<times> real)" where
  "update_altitude c z_ref0 z_actual vz_actual mass0 g0 dt =
    (let z_err = z_ref0 - z_actual
     in case PID_update (alt_pid c) (z_err - (2 / 10) * vz_actual) dt of
          Inl (e, s) \<Rightarrow> Inl (e, c\<lparr> alt_pid := s \<rparr>)
        | Inr (s, alt_cmd) \<Rightarrow>
            let thrust0 = mass0 * g0 + alt_cmd
            in Inr (c\<lparr> alt_pid := s \<rparr>, thrust0))"

text \<open>
  \<open>CascadedController.update_attitude\<close>: three updates in sequence; one that raises
  leaves the earlier controllers updated.
\<close>

definition update_attitude ::
  "controller \<Rightarrow> real \<Rightarrow> real \<Rightarrow> real \<Rightarrow> real \<Rightarrow> real \<Rightarrow> real \<Rightarrow> real
     \<Rightarrow> (py_error \<times> controller) + (controller \<times> real \<times> real \<times> real)" where
  "update_attitude c roll_ref0 pitch_ref0 yaw_ref0 roll_actual pitch_actual yaw_actual dt =
    (let roll_err = roll_ref0 - roll_actual;
         pitch_err = pitch_ref0 - pitch_actual;
         yaw_err = yaw_ref0 - yaw_actual
     in case PID_update (roll_pid c) roll_err dt of
          Inl (e, s) \<Rightarrow> Inl (e, c\<lparr> roll_pid := s \<rparr>)
        | Inr (s1, t_roll) \<Rightarrow>
           (case PID_update (pitch_pid c) pitch_err dt of
              Inl (e, s) \<Rightarrow> Inl (e, c\<lparr> roll_pid := s1, pitch_pid := s \<rparr>)
            | Inr (s2, t_pitch) \<Rightarrow>
               (case PID_update (yaw_pid c) yaw_err dt of
                  Inl (e, s) \<Rightarrow> Inl (e, c\<lparr> roll_pid := s1, pitch_pid := s2, yaw_pid := s \<rparr>)
                | Inr (s3, t_yaw) \<Rightarrow>
                    Inr (c\<lparr> roll_pid := s1, pitch_pid := s2, yaw_pid := s3 \<rparr>,
                         t_roll, t_pitch, t_yaw))))"

section \<open>Simulator (simulator.py)\<close>

text \<open>
  The attributes of a \<open>QuadcopterSimulator\<close> object; \<open>step_count\<close> is a Python integer
  and \<open>logged_states\<close> a list of \<open>(sim_time, state dictionary)\<close> pairs.
\<close>

record sim =
  quad :: quad
  controller :: controller
  z_ref :: real
  roll_ref :: real
  pitch_ref :: real
  yaw_ref :: real
  sim_time :: real
  step_count :: int
  logged_states :: "(real \<times> vehicle_state) list"


definition set_references :: "sim \<Rightarrow> real \<Rightarrow> real \<Rightarrow> real \<Rightarrow> real \<Rightarrow> sim" where
  "set_references s roll_ref0 pitch_ref0 yaw_ref0 z_ref0 =
     s\<lparr> roll_ref := roll_ref0, pitch_ref := pitch_ref0, yaw_ref := yaw_ref0, z_ref := z_ref0 \<rparr>"

text \<open>
  \<open>QuadcopterSimulator.step\<close>.  A raise in a controller update or in the physics step
  propagates; the time, the tick counter and the log are then not touched.
\<close>

definition sim_step :: "sim \<Rightarrow> real \<Rightarrow> (py_error \<times> sim) + (sim \<times> vehicle_state)" where
  "sim_step s dt =
    (let state = get_state (quad s)
     in case update_altitude (controller s) (z_ref s) (z state) (vz state)
               (mass (quad s)) g dt of
          Inl (e, c) \<Rightarrow> Inl (e, s\<lparr> controller := c \<rparr>)
        | Inr (c1, thrust0) \<Rightarrow>
           (case update_attitude c1 (roll_ref s) (pitch_ref s) (yaw_ref s)
                   (roll state) (pitch state) (yaw state) dt of
              Inl (e, c) \<Rightarrow> Inl (e, s\<lparr> controller := c \<rparr>)
            | Inr (c2, t_roll, t_pitch, t_yaw) \<Rightarrow>
               (let qd1 = set_control (quad s) t_roll t_pitch t_yaw thrust0
                in case step qd1 dt of
                     Inl (e, qd) \<Rightarrow> Inl (e, s\<lparr> controller := c2, quad := qd \<rparr>)
                   | Inr qd2 \<Rightarrow>
                      (let sim_time1 = sim_time s + dt;
                           step_count1 = step_count s + 1;
                           appended = logged_states s @ [(sim_time1, get_state qd2)];
                           logged1 =
                             (if step_count1 mod 4 = 0 then
                                (if length appended > 5000 then tl appended else appended)
                              else logged_states s)
                       in Inr (s\<lparr> controller := c2, quad := qd2, sim_time := sim_time1,
                                  step_count := step_count1, logged_states := logged1 \<rparr>,
                               get_state qd2)))))"

definition sim_reset :: "sim \<Rightarrow> sim" where
  "sim_reset s =
     s\<lparr> quad := reset (quad s), controller := controller_reset (controller s),
        sim_time := 0, step_count := 0, logged_states := [] \<rparr>"

text \<open>The simulator a caller holds after a \<open>step\<close> call, returned or raised.\<close>

definition sim_after :: "(py_error \<times> sim) + (sim \<times> vehicle_state) \<Rightarrow> sim" where
  "sim_after res = (case res of Inl (e, s) \<Rightarrow> s | Inr (s, out) \<Rightarrow> s)"




section \<open>Properties of the rigid-body model\<close>

subsection \<open>Yaw normalisation and saturation\<close>

lemma yaw_down_le: "yaw_down a \<le> pi"
  by (induction a rule: yaw_down.induct) (subst yaw_down.simps, simp)

lemma yaw_up_ge: "- pi \<le> yaw_up a"
  by (induction a rule: yaw_up.induct) (subst yaw_up.simps, simp)

lemma yaw_up_le: "a \<le> pi \<Longrightarrow> yaw_up a \<le> pi"
  by (induction a rule: yaw_up.induct) (subst yaw_up.simps, simp)

lemma yaw_wrap_id: "- pi \<le> a \<Longrightarrow> a \<le> pi \<Longrightarrow> yaw_up (yaw_down a) = a"
  by (simp add: yaw_down.simps yaw_up.simps)

lemma limit_bounds: "0 \<le> m \<Longrightarrow> - m \<le> limit m v \<and> limit m v \<le> m"
  by (simp add: limit_def)

lemma limit_id: "- m \<le> v \<Longrightarrow> v \<le> m \<Longrightarrow> limit m v = v"
  by (simp add: limit_def)

lemma MAX_nonneg: "0 \<le> MAX_ANGLE" "0 \<le> MAX_VEL" "0 \<le> MAX_POS"
  by (simp_all add: MAX_ANGLE_def MAX_VEL_def MAX_POS_def)

subsection \<open>When \<open>step\<close> raises, and the envelope it maintains\<close>

lemma step_raises:
  "isl (step qd dt) \<longleftrightarrow> Ix qd = 0 \<or> Iy qd = 0 \<or> Iz qd = 0 \<or> mass qd = 0"
  by (simp add: step_def Let_def)

lemma envelope_new: "in_envelope (new_quad m l a b c)"
  by (simp add: in_envelope_def new_quad_def MAX_ANGLE_def MAX_VEL_def MAX_POS_def)

lemma envelope_reset: "in_envelope (reset qd)"
  by (simp add: in_envelope_def reset_def MAX_ANGLE_def MAX_VEL_def MAX_POS_def)

lemma envelope_set_control: "in_envelope qd \<Longrightarrow> in_envelope (set_control qd a b c d)"
  by (simp add: in_envelope_def set_control_def)

lemma envelope_step: "in_envelope qd \<Longrightarrow> in_envelope (after (step qd dt))"
  unfolding in_envelope_def step_def after_def Let_def
  using MAX_nonneg limit_bounds[of MAX_ANGLE] limit_bounds[of MAX_VEL] limit_bounds[of MAX_POS]
  by (simp add: yaw_up_ge yaw_up_le yaw_down_le)

lemma envelope_call: "in_envelope qd \<Longrightarrow> in_envelope (call_quad qd c)"
  by (cases c) (simp_all add: envelope_set_control envelope_step envelope_reset)

lemma envelope_foldl: "in_envelope qd \<Longrightarrow> in_envelope (foldl call_quad qd calls)"
  by (induction calls arbitrary: qd) (simp_all add: envelope_call)

lemma envelope_run: "in_envelope (run_quad (new_quad m l a b c) calls)"
  by (simp add: run_quad_def envelope_foldl envelope_new)

lemma step_zero_dt: "in_envelope qd \<Longrightarrow> after (step qd 0) = qd"
  unfolding in_envelope_def step_def after_def Let_def
  by (simp add: limit_id yaw_wrap_id)

subsection \<open>Reset and the state dictionary\<close>

text \<open>
  Against C1 as stated: after \<open>set_control(1, 2, 3, 4)\<close> on a default vehicle, \<open>reset()\<close>
  followed by \<open>get_state()\<close> does not return the construction-time dictionary, because
  \<open>reset\<close> assigns the twelve kinematic attributes and \<open>history\<close> only.
\<close>

theorem reset_get_state_controls_cex:
  "get_state (reset (run_quad (new_quad 1 (3/10) (1/100) (1/100) (1/50)) [SetControl 1 2 3 4]))
     \<noteq> get_state (new_quad 1 (3/10) (1/100) (1/100) (1/50))"
  by (simp add: get_state_def reset_def new_quad_def vehicle_state.defs run_quad_def
      set_control_def)

text \<open>
  C1 (amended).  For every sequence of \<open>set_control\<close>, \<open>step\<close> and \<open>reset\<close> calls on a
  vehicle built with any parameters, \<open>reset()\<close> followed by \<open>get_state()\<close> returns the
  construction-time dictionary in its twelve kinematic entries (position \<open>(0, 0, 2.5)\<close>,
  zero velocity, attitude and angular rates), while the entries \<open>thrust\<close>, \<open>torque_roll\<close>,
  \<open>torque_pitch\<close> and \<open>torque_yaw\<close> keep the values they had before the reset.
\<close>

theorem reset_get_state:
  "get_state (reset (run_quad (new_quad m l a b c) calls)) =
     (get_state (new_quad m l a b c))
       \<lparr> thrust := thrust (run_quad (new_quad m l a b c) calls),
         torque_roll := torque_roll (run_quad (new_quad m l a b c) calls),
         torque_pitch := torque_pitch (run_quad (new_quad m l a b c) calls),
         torque_yaw := torque_yaw (run_quad (new_quad m l a b c) calls) \<rparr>"
  by (simp add: get_state_def reset_def new_quad_def vehicle_state.defs)

subsection \<open>Attitude bounds\<close>

text \<open>
  Against C2 as stated: with \<open>Izz = 1\<close>, a yaw torque of \<open>-pi\<close> and one step of
  \<open>dt = 1\<close> the yaw rate and then the yaw become exactly \<open>-pi\<close>; neither loop condition
  (\<open>yaw > pi\<close>, \<open>yaw < -pi\<close>) holds there, so \<open>get_state\<close> reports \<open>yaw = -pi\<close>, which is
  outside the half-open interval.
\<close>

theorem yaw_minus_pi_cex:
  "\<not> (- pi < yaw (get_state (run_quad (new_quad 1 (3/10) (1/100) (1/100) 1)
                               [SetControl 0 0 (- pi) 0, Step 1])))"
  by (simp add: run_quad_def set_control_def new_quad_def step_def Let_def after_def
      get_state_def vehicle_state.defs yaw_wrap_id)

text \<open>
  C2 (amended).  For every vehicle, every sequence of control inputs, steps (with any
  \<open>dt\<close>, raising or not) and resets from the construction state, the roll and the pitch
  read from \<open>get_state\<close> lie in \<open>[-MAX_ANGLE, MAX_ANGLE]\<close> and the yaw lies in the closed
  interval \<open>[-pi, pi]\<close>.
\<close>

theorem attitude_bounds:
  "- MAX_ANGLE \<le> roll (get_state (run_quad (new_quad m l a b c) calls)) \<and>
   roll (get_state (run_quad (new_quad m l a b c) calls)) \<le> MAX_ANGLE \<and>
   - MAX_ANGLE \<le> pitch (get_state (run_quad (new_quad m l a b c) calls)) \<and>
   pitch (get_state (run_quad (new_quad m l a b c) calls)) \<le> MAX_ANGLE \<and>
   - pi \<le> yaw (get_state (run_quad (new_quad m l a b c) calls)) \<and>
   yaw (get_state (run_quad (new_quad m l a b c) calls)) \<le> pi"
  using envelope_run[of m l a b c calls]
  by (simp add: in_envelope_def get_state_def vehicle_state.defs)

subsection \<open>Degenerate time steps\<close>

text \<open>
  Against C6 as stated: \<open>step(-1.0)\<close> on a freshly built default vehicle returns normally
  and moves the vehicle from \<open>z = 2.5\<close> to the ground (\<open>vz\<close> becomes \<open>9.81\<close>, \<open>z\<close> becomes
  \<open>2.5 - 9.81 < 0\<close> and is set to \<open>0\<close>).
\<close>

theorem step_negative_dt_cex:
  "\<not> isl (step (new_quad 1 (3/10) (1/100) (1/100) (1/50)) (- 1)) \<and>
   get_state (after (step (new_quad 1 (3/10) (1/100) (1/100) (1/50)) (- 1)))
     \<noteq> get_state (new_quad 1 (3/10) (1/100) (1/100) (1/50))"
  by (simp add: new_quad_def step_def Let_def after_def get_state_def vehicle_state.defs
      yaw_wrap_id limit_def g_def MAX_VEL_def MAX_ANGLE_def MAX_POS_def)

text \<open>
  C6 (amended).  \<open>step\<close> has no check on \<open>dt\<close>: whether it raises does not depend on
  \<open>dt\<close> at all.  For \<open>dt = 0\<close> and every state reachable from construction by
  \<open>set_control\<close>, \<open>step\<close> and \<open>reset\<close> calls, \<open>step(dt)\<close> leaves the whole object
  unchanged; for \<open>dt < 0\<close> it integrates with the negative step.
\<close>

theorem step_zero_dt_noop:
  "after (step (run_quad (new_quad m l a b c) calls) 0) = run_quad (new_quad m l a b c) calls \<and>
   isl (step qd dt) = isl (step qd dt')"
  by (simp add: step_zero_dt envelope_run step_raises)

subsection \<open>Construction parameters\<close>

text \<open>
  Against C7 as stated: the constructor returns an object for zero mass, zero \<open>Ixx\<close> and
  negative \<open>Iyy\<close>.
\<close>

theorem constructor_nonpositive_cex: "\<not> isl (Quadcopter_init 0 (3/10) 0 (- 1) (1/50))"
  by (simp add: Quadcopter_init_def)

text \<open>
  C7 (amended).  Constructing the model succeeds for every mass and every moment of
  inertia, non-positive ones included, and stores them as given; a zero mass or a zero
  moment of inertia then makes \<open>step\<close> raise \<open>ZeroDivisionError\<close>, and these are the only
  parameters for which \<open>step\<close> on the new object raises.
\<close>

theorem constructor_accepts_all:
  "Quadcopter_init m l a b c = Inr (new_quad m l a b c) \<and>
   mass (new_quad m l a b c) = m \<and> Ix (new_quad m l a b c) = a \<and>
   Iy (new_quad m l a b c) = b \<and> Iz (new_quad m l a b c) = c \<and>
   (isl (step (new_quad m l a b c) dt) \<longleftrightarrow> m = 0 \<or> a = 0 \<or> b = 0 \<or> c = 0)"
  by (auto simp add: Quadcopter_init_def step_raises) (simp_all add: new_quad_def)

subsection \<open>Free fall\<close>

lemma step_vertical:
  assumes "mass a \<noteq> 0" "Ix a \<noteq> 0" "Iy a \<noteq> 0" "Iz a \<noteq> 0" "thrust a = 0"
  shows "\<exists>b. step a dt = Inr b \<and> mass b = mass a \<and> Ix b = Ix a \<and> Iy b = Iy a \<and>
           Iz b = Iz a \<and> thrust b = 0 \<and>
           vz b = (if z a + limit MAX_VEL (vz a - g * dt) * dt < 0 then 0
                   else limit MAX_VEL (vz a - g * dt)) \<and>
           z b = max 0 (min MAX_POS (if z a + limit MAX_VEL (vz a - g * dt) * dt < 0 then 0
                   else z a + limit MAX_VEL (vz a - g * dt) * dt))"
  using assms unfolding step_def Let_def by simp

lemma fall_speed_small:
  assumes "v \<le> 0" "v\<^sup>2 \<le> 2 * g * (5/2 - h)" "0 \<le> h"
  shows "- 8 \<le> v"
proof (rule ccontr)
  assume "\<not> - 8 \<le> v"
  then have "8 < - v" by simp
  then have "8 * 8 < (- v) * (- v)" by (intro mult_strict_mono) simp_all
  then have "64 < v\<^sup>2" by (simp add: power2_eq_square)
  moreover have "2 * g * (5/2 - h) \<le> 2 * g * (5/2)" using assms(3) by (simp add: g_def)
  ultimately show False using assms(2) by (simp add: g_def)
qed

lemma falling_step:
  assumes dt: "0 < dt"
    and nz: "mass a \<noteq> 0" "Ix a \<noteq> 0" "Iy a \<noteq> 0" "Iz a \<noteq> 0"
    and thr: "thrust a = 0"
    and v: "vz a \<le> 0" and h: "0 \<le> z a" and en: "(vz a)\<^sup>2 \<le> 2 * g * (5/2 - z a)"
  shows "\<exists>b. step a dt = Inr b \<and> mass b = mass a \<and> Ix b = Ix a \<and> Iy b = Iy a \<and>
           Iz b = Iz a \<and> thrust b = 0 \<and>
           vz b \<le> 0 \<and> 0 \<le> z b \<and> (vz b)\<^sup>2 \<le> 2 * g * (5/2 - z b) \<and>
           (if z a + (vz a - g * dt) * dt < 0 then z b = 0 \<and> vz b = 0
            else vz b = vz a - g * dt \<and> z b = z a + (vz a - g * dt) * dt)"
proof -
  define w where "w = vz a - g * dt"
  have gpos: "0 < g" by (simp add: g_def)
  have v8: "- 8 \<le> vz a" using fall_speed_small[OF v en h] .
  have zle: "z a \<le> 5/2"
  proof -
    have "0 \<le> (vz a)\<^sup>2" by simp
    then have "0 \<le> 2 * g * (5/2 - z a)" using en by linarith
    then have "0 \<le> 5/2 - z a" using gpos by (simp add: zero_le_mult_iff)
    then show ?thesis by simp
  qed
  have "0 < g * dt" using gpos dt by simp
  then have wneg: "w < 0" using v unfolding w_def by linarith
  obtain b where b: "step a dt = Inr b" "mass b = mass a" "Ix b = Ix a" "Iy b = Iy a"
      "Iz b = Iz a" "thrust b = 0"
      "vz b = (if z a + limit MAX_VEL w * dt < 0 then 0 else limit MAX_VEL w)"
      "z b = max 0 (min MAX_POS (if z a + limit MAX_VEL w * dt < 0 then 0
                   else z a + limit MAX_VEL w * dt))"
    using step_vertical[OF nz thr, of dt] unfolding w_def by blast
  show ?thesis
  proof (cases "w < - 50")
    case True
    then have "g * dt > 42" using v8 by (simp add: w_def)
    then have "dt > 4" using gpos by (simp add: g_def)
    then have big: "50 * dt > 200" by simp
    have lim: "limit MAX_VEL w = - 50" using True by (simp add: limit_def MAX_VEL_def)
    have "w * dt < (- 50) * dt" by (rule mult_strict_right_mono[OF True dt])
    then have c1: "z a + w * dt < 0" using big zle by linarith
    have c2: "z a + limit MAX_VEL w * dt < 0" using lim big zle by simp
    have "vz b = 0" "z b = 0" using b c2 by (simp_all add: MAX_POS_def)
    then show ?thesis using b c1 zle gpos by (simp add: w_def)
  next
    case False
    then have lim: "limit MAX_VEL w = w" using wneg by (simp add: limit_def MAX_VEL_def)
    show ?thesis
    proof (cases "z a + w * dt < 0")
      case True
      then have "vz b = 0" "z b = 0" using b lim by (simp_all add: MAX_POS_def)
      then show ?thesis using b True zle gpos by (simp add: w_def)
    next
      case ge: False
      have "w * dt < 0" using wneg dt by (simp add: mult_neg_pos)
      then have zb: "z b = z a + w * dt" using b lim ge zle by (simp add: MAX_POS_def)
      have vb: "vz b = w" using b lim ge by simp
      have "w\<^sup>2 = (vz a)\<^sup>2 - 2 * vz a * (g * dt) + (g * dt)\<^sup>2"
        by (simp add: w_def power2_diff)
      moreover have "2 * g * (5/2 - (z a + w * dt)) =
          2 * g * (5/2 - z a) - 2 * vz a * (g * dt) + 2 * (g * dt)\<^sup>2"
        by (simp add: w_def algebra_simps power2_eq_square)
      moreover have "0 \<le> (g * dt)\<^sup>2" by simp
      ultimately have "w\<^sup>2 \<le> 2 * g * (5/2 - (z a + w * dt))" using en by linarith
      then show ?thesis using b zb vb ge wneg by (simp add: w_def)
    qed
  qed
qed


lemma capped_step:
  assumes dt: "0 < dt"
    and nz: "mass a \<noteq> 0" "Ix a \<noteq> 0" "Iy a \<noteq> 0" "Iz a \<noteq> 0"
    and thr: "thrust a = 0"
    and v: "vz a \<le> 0" and h: "0 \<le> z a" and top: "z a \<le> MAX_POS"
  shows "\<exists>b. step a dt = Inr b \<and> mass b = mass a \<and> Ix b = Ix a \<and> Iy b = Iy a \<and>
           Iz b = Iz a \<and> thrust b = 0 \<and> vz b \<le> 0 \<and> 0 \<le> z b \<and> z b \<le> MAX_POS \<and>
           (if z a + max (- MAX_VEL) (vz a - g * dt) * dt < 0 then z b = 0 \<and> vz b = 0
            else vz b = max (- MAX_VEL) (vz a - g * dt) \<and>
                 z b = z a + max (- MAX_VEL) (vz a - g * dt) * dt)"
proof -
  define w where "w = max (- MAX_VEL) (vz a - g * dt)"
  have "0 < g * dt" using dt by (simp add: g_def)
  then have "vz a - g * dt < 0" using v by linarith
  then have lim: "limit MAX_VEL (vz a - g * dt) = w" and wneg: "w < 0"
    by (simp_all add: limit_def w_def MAX_VEL_def)
  obtain b where b: "step a dt = Inr b" "mass b = mass a" "Ix b = Ix a" "Iy b = Iy a"
      "Iz b = Iz a" "thrust b = 0"
      "vz b = (if z a + w * dt < 0 then 0 else w)"
      "z b = max 0 (min MAX_POS (if z a + w * dt < 0 then 0 else z a + w * dt))"
    using step_vertical[OF nz thr, of dt] unfolding lim by blast
  have "w * dt < 0" using wneg dt by (simp add: mult_neg_pos)
  then have le: "z a + w * dt \<le> MAX_POS" using top by linarith
  show ?thesis
  proof (cases "z a + w * dt < 0")
    case True
    then have "vz b = 0" "z b = 0" using b by (simp_all add: MAX_POS_def)
    then show ?thesis using b True unfolding w_def[symmetric] by (simp add: MAX_POS_def)
  next
    case False
    then have "vz b = w" "z b = z a + w * dt" using b le by simp_all
    then show ?thesis using b False wneg le unfolding w_def[symmetric] by simp
  qed
qed

lemma capped_invariant:
  assumes "0 < dt" "mass s \<noteq> 0" "Ix s \<noteq> 0" "Iy s \<noteq> 0" "Iz s \<noteq> 0"
    "thrust s = 0" "vz s = 0" "0 \<le> z s" "z s \<le> MAX_POS"
  shows "\<exists>a. steps s dt n = Inr a \<and> mass a \<noteq> 0 \<and> Ix a \<noteq> 0 \<and>
           Iy a \<noteq> 0 \<and> Iz a \<noteq> 0 \<and> thrust a = 0 \<and> vz a \<le> 0 \<and> 0 \<le> z a \<and> z a \<le> MAX_POS"
proof (induction n)
  case 0
  show ?case using assms by simp
next
  case (Suc n)
  then obtain a where a: "steps s dt n = Inr a" "mass a \<noteq> 0"
      "Ix a \<noteq> 0" "Iy a \<noteq> 0" "Iz a \<noteq> 0" "thrust a = 0" "vz a \<le> 0" "0 \<le> z a"
      "z a \<le> MAX_POS"
    by blast
  from capped_step[OF assms(1) a(2-9)] obtain b where
    "step a dt = Inr b" "mass b = mass a" "Ix b = Ix a" "Iy b = Iy a" "Iz b = Iz a"
    "thrust b = 0" "vz b \<le> 0" "0 \<le> z b" "z b \<le> MAX_POS"
    by blast
  then show ?case using a by simp
qed

lemma low_fall_invariant:
  assumes "0 < dt" "mass s \<noteq> 0" "Ix s \<noteq> 0" "Iy s \<noteq> 0" "Iz s \<noteq> 0"
    "thrust s = 0" "vz s = 0" "0 \<le> z s" "z s \<le> 5/2"
  shows "\<exists>a. steps s dt n = Inr a \<and> mass a \<noteq> 0 \<and> Ix a \<noteq> 0 \<and>
           Iy a \<noteq> 0 \<and> Iz a \<noteq> 0 \<and> thrust a = 0 \<and> vz a \<le> 0 \<and> 0 \<le> z a \<and>
           (vz a)\<^sup>2 \<le> 2 * g * (5/2 - z a)"
proof (induction n)
  case 0
  show ?case using assms by (simp add: g_def)
next
  case (Suc n)
  then obtain a where a: "steps s dt n = Inr a" "mass a \<noteq> 0"
      "Ix a \<noteq> 0" "Iy a \<noteq> 0" "Iz a \<noteq> 0" "thrust a = 0" "vz a \<le> 0" "0 \<le> z a"
      "(vz a)\<^sup>2 \<le> 2 * g * (5/2 - z a)"
    by blast
  from falling_step[OF assms(1) a(2-9)] obtain b where
    "step a dt = Inr b" "mass b = mass a" "Ix b = Ix a" "Iy b = Iy a" "Iz b = Iz a"
    "thrust b = 0" "vz b \<le> 0" "0 \<le> z b" "(vz b)\<^sup>2 \<le> 2 * g * (5/2 - z b)"
    by blast
  then show ?case using a by simp
qed

lemma climb_step:
  "step (set_control (new_quad 1 (3/10) (1/100) (1/100) (1/50)) 0 0 0 (981/50)) 5
   = Inr ((new_quad 1 (3/10) (1/100) (1/100) (1/50))
            \<lparr> z := 991/4, vz := 981/20, thrust := 981/50 \<rparr>)"
  by (simp add: set_control_def new_quad_def step_def Let_def
      yaw_wrap_id limit_id g_def MAX_VEL_def MAX_ANGLE_def MAX_POS_def)

lemma brake_step:
  "step (set_control ((new_quad 1 (3/10) (1/100) (1/100) (1/50))
            \<lparr> z := 991/4, vz := 981/20, thrust := 981/50 \<rparr>) 0 0 0 0) 5
   = Inr ((new_quad 1 (3/10) (1/100) (1/100) (1/50)) \<lparr> z := 991/4 \<rparr>)"
  by (simp add: set_control_def new_quad_def step_def Let_def
      yaw_wrap_id limit_id g_def MAX_VEL_def MAX_ANGLE_def MAX_POS_def)

lemma high_rest_state:
  "run_quad (new_quad 1 (3/10) (1/100) (1/100) (1/50))
     [SetControl 0 0 0 (981/50), Step 5, SetControl 0 0 0 0, Step 5]
   = (new_quad 1 (3/10) (1/100) (1/100) (1/50))\<lparr> z := 991/4 \<rparr>"
  by (simp add: run_quad_def climb_step brake_step after_def)


lemma fall_step_value:
  assumes "mass a \<noteq> 0" "Ix a \<noteq> 0" "Iy a \<noteq> 0" "Iz a \<noteq> 0" "thrust a = 0"
    and "vz a = v" and "z a = h"
    and "limit MAX_VEL (v - g * dt) = w" and "h + w * dt = h'" and "0 \<le> h'" and "h' \<le> MAX_POS"
  shows "\<exists>b. step a dt = Inr b \<and> mass b \<noteq> 0 \<and> Ix b \<noteq> 0 \<and> Iy b \<noteq> 0 \<and>
           Iz b \<noteq> 0 \<and> thrust b = 0 \<and> vz b = w \<and> z b = h'"
  using step_vertical[OF assms(1-5), of dt] assms by auto

text \<open>
  Against C3 as stated: a thrust of \<open>19.62\<close> for one step of \<open>dt = 5\<close> followed by zero
  thrust for another such step leaves the default vehicle at rest at \<open>z = 247.75\<close> with
  zero controls.  Falling from there with \<open>dt = 1\<close>, the sixth step ends airborne
  (\<open>z = 50.6\<close>) with \<open>vz = -50\<close>, the velocity saturation, and not with the
  \<open>-49.05 - 9.81\<close> that a gain of \<open>- g * dt\<close> would give.
\<close>

theorem free_fall_high_cex:
  "vz (run_quad (new_quad 1 (3/10) (1/100) (1/100) (1/50))
         [SetControl 0 0 0 (981/50), Step 5, SetControl 0 0 0 0, Step 5]) = 0 \<and>
   thrust (run_quad (new_quad 1 (3/10) (1/100) (1/100) (1/50))
         [SetControl 0 0 0 (981/50), Step 5, SetControl 0 0 0 0, Step 5]) = 0 \<and>
   \<not> isl (steps (run_quad (new_quad 1 (3/10) (1/100) (1/100) (1/50))
         [SetControl 0 0 0 (981/50), Step 5, SetControl 0 0 0 0, Step 5]) 1 6) \<and>
   0 < z (after (steps (run_quad (new_quad 1 (3/10) (1/100) (1/100) (1/50))
         [SetControl 0 0 0 (981/50), Step 5, SetControl 0 0 0 0, Step 5]) 1 6)) \<and>
   vz (after (steps (run_quad (new_quad 1 (3/10) (1/100) (1/100) (1/50))
         [SetControl 0 0 0 (981/50), Step 5, SetControl 0 0 0 0, Step 5]) 1 6))
     \<noteq> vz (after (steps (run_quad (new_quad 1 (3/10) (1/100) (1/100) (1/50))
         [SetControl 0 0 0 (981/50), Step 5, SetControl 0 0 0 0, Step 5]) 1 5)) - g * 1"
proof -
  define a0 where "a0 = (new_quad 1 (3/10) (1/100) (1/100) (1/50))\<lparr> z := 991/4 \<rparr>"
  have a0: "mass a0 \<noteq> 0" "Ix a0 \<noteq> 0" "Iy a0 \<noteq> 0" "Iz a0 \<noteq> 0" "thrust a0 = 0"
    "vz a0 = 0" "z a0 = 991/4"
    by (simp_all add: a0_def new_quad_def)
  have "\<exists>b. step a0 1 = Inr b \<and> mass b \<noteq> 0 \<and> Ix b \<noteq> 0 \<and> Iy b \<noteq> 0 \<and>
           Iz b \<noteq> 0 \<and> thrust b = 0 \<and> vz b = - (981/100) \<and> z b = 11897/50"
    by (rule fall_step_value[OF a0])
       (simp_all add: limit_def g_def MAX_VEL_def MAX_POS_def)
  then obtain a1 where s1: "step a0 1 = Inr a1"
    and a1: "mass a1 \<noteq> 0" "Ix a1 \<noteq> 0" "Iy a1 \<noteq> 0" "Iz a1 \<noteq> 0" "thrust a1 = 0"
      "vz a1 = - (981/100)" "z a1 = 11897/50"
    by blast
  have "\<exists>b. step a1 1 = Inr b \<and> mass b \<noteq> 0 \<and> Ix b \<noteq> 0 \<and> Iy b \<noteq> 0 \<and>
           Iz b \<noteq> 0 \<and> thrust b = 0 \<and> vz b = - (981/50) \<and> z b = 5458/25"
    by (rule fall_step_value[OF a1])
       (simp_all add: limit_def g_def MAX_VEL_def MAX_POS_def)
  then obtain a2 where s2: "step a1 1 = Inr a2"
    and a2: "mass a2 \<noteq> 0" "Ix a2 \<noteq> 0" "Iy a2 \<noteq> 0" "Iz a2 \<noteq> 0" "thrust a2 = 0"
      "vz a2 = - (981/50)" "z a2 = 5458/25"
    by blast
  have "\<exists>b. step a2 1 = Inr b \<and> mass b \<noteq> 0 \<and> Ix b \<noteq> 0 \<and> Iy b \<noteq> 0 \<and>
           Iz b \<noteq> 0 \<and> thrust b = 0 \<and> vz b = - (2943/100) \<and> z b = 18889/100"
    by (rule fall_step_value[OF a2])
       (simp_all add: limit_def g_def MAX_VEL_def MAX_POS_def)
  then obtain a3 where s3: "step a2 1 = Inr a3"
    and a3: "mass a3 \<noteq> 0" "Ix a3 \<noteq> 0" "Iy a3 \<noteq> 0" "Iz a3 \<noteq> 0" "thrust a3 = 0"
      "vz a3 = - (2943/100)" "z a3 = 18889/100"
    by blast
  have "\<exists>b. step a3 1 = Inr b \<and> mass b \<noteq> 0 \<and> Ix b \<noteq> 0 \<and> Iy b \<noteq> 0 \<and>
           Iz b \<noteq> 0 \<and> thrust b = 0 \<and> vz b = - (981/25) \<and> z b = 2993/20"
    by (rule fall_step_value[OF a3])
       (simp_all add: limit_def g_def MAX_VEL_def MAX_POS_def)
  then obtain a4 where s4: "step a3 1 = Inr a4"
    and a4: "mass a4 \<noteq> 0" "Ix a4 \<noteq> 0" "Iy a4 \<noteq> 0" "Iz a4 \<noteq> 0" "thrust a4 = 0"
      "vz a4 = - (981/25)" "z a4 = 2993/20"
    by blast
  have "\<exists>b. step a4 1 = Inr b \<and> mass b \<noteq> 0 \<and> Ix b \<noteq> 0 \<and> Iy b \<noteq> 0 \<and>
           Iz b \<noteq> 0 \<and> thrust b = 0 \<and> vz b = - (981/20) \<and> z b = 503/5"
    by (rule fall_step_value[OF a4])
       (simp_all add: limit_def g_def MAX_VEL_def MAX_POS_def)
  then obtain a5 where s5: "step a4 1 = Inr a5"
    and a5: "mass a5 \<noteq> 0" "Ix a5 \<noteq> 0" "Iy a5 \<noteq> 0" "Iz a5 \<noteq> 0" "thrust a5 = 0"
      "vz a5 = - (981/20)" "z a5 = 503/5"
    by blast
  have "\<exists>b. step a5 1 = Inr b \<and> mass b \<noteq> 0 \<and> Ix b \<noteq> 0 \<and> Iy b \<noteq> 0 \<and>
           Iz b \<noteq> 0 \<and> thrust b = 0 \<and> vz b = - 50 \<and> z b = 253/5"
    by (rule fall_step_value[OF a5])
       (simp_all add: limit_def g_def MAX_VEL_def MAX_POS_def)
  then obtain a6 where s6: "step a5 1 = Inr a6"
    and a6: "mass a6 \<noteq> 0" "Ix a6 \<noteq> 0" "Iy a6 \<noteq> 0" "Iz a6 \<noteq> 0" "thrust a6 = 0"
      "vz a6 = - 50" "z a6 = 253/5"
    by blast
  have run5: "steps a0 1 5 = Inr a5"
    by (simp add: eval_nat_numeral s1 s2 s3 s4 s5)
  have run6: "steps a0 1 6 = Inr a6"
    by (simp add: eval_nat_numeral s1 s2 s3 s4 s5 s6)
  show ?thesis
    unfolding high_rest_state a0_def[symmetric] run5 run6
    by (simp add: a0 a5 a6 after_def g_def)
qed

text \<open>
  C3 (amended).  For every \<open>dt > 0\<close>, a vehicle with non-zero mass and inertia and zero
  thrust that starts at rest at an altitude between the ground and \<open>MAX_POS\<close> completes
  every step without raising, and at every step: if the position update drives \<open>z\<close> below
  \<open>0\<close> then the step ends with \<open>z = 0\<close> and \<open>vz = 0\<close>; otherwise it is airborne and the new
  \<open>vz\<close> is \<open>max(-MAX_VEL, vz - g * dt)\<close>, that is, a gain of exactly \<open>- g * dt\<close> unless
  the speed is capped at \<open>MAX_VEL\<close>.  Once \<open>z = 0\<close>, the next step ends with \<open>z = 0\<close> and
  \<open>vz = 0\<close> again.  When the start is at or below the construction altitude \<open>2.5\<close> the cap
  is never reached: every step either lands or gains exactly \<open>- g * dt\<close>.
\<close>

theorem free_fall:
  assumes "0 < dt" "mass s \<noteq> 0" "Ix s \<noteq> 0" "Iy s \<noteq> 0" "Iz s \<noteq> 0"
    "thrust s = 0" "vz s = 0" "0 \<le> z s" "z s \<le> MAX_POS"
  shows "\<exists>a b. steps s dt n = Inr a \<and> steps s dt (Suc n) = Inr b \<and>
           (if z a + max (- MAX_VEL) (vz a - g * dt) * dt < 0 then z b = 0 \<and> vz b = 0
            else vz b = max (- MAX_VEL) (vz a - g * dt) \<and>
                 z b = z a + max (- MAX_VEL) (vz a - g * dt) * dt) \<and>
           (z a = 0 \<longrightarrow> z b = 0 \<and> vz b = 0) \<and>
           (z s \<le> 5/2 \<longrightarrow>
              (if z a + (vz a - g * dt) * dt < 0 then z b = 0 \<and> vz b = 0
               else vz b = vz a - g * dt \<and> z b = z a + (vz a - g * dt) * dt))"
proof -
  obtain a where a: "steps s dt n = Inr a" "mass a \<noteq> 0"
      "Ix a \<noteq> 0" "Iy a \<noteq> 0" "Iz a \<noteq> 0" "thrust a = 0" "vz a \<le> 0" "0 \<le> z a"
      "z a \<le> MAX_POS"
    using capped_invariant[OF assms, of n] by blast
  from capped_step[OF assms(1) a(2-9)] obtain b where b: "step a dt = Inr b"
    "if z a + max (- MAX_VEL) (vz a - g * dt) * dt < 0 then z b = 0 \<and> vz b = 0
     else vz b = max (- MAX_VEL) (vz a - g * dt) \<and>
          z b = z a + max (- MAX_VEL) (vz a - g * dt) * dt"
    by blast
  have ground: "z a = 0 \<longrightarrow> z b = 0 \<and> vz b = 0"
  proof
    assume z0: "z a = 0"
    have "0 < g * dt" using assms(1) by (simp add: g_def)
    then have "vz a - g * dt < 0" using a(7) by linarith
    then have "max (- MAX_VEL) (vz a - g * dt) < 0" by (simp add: MAX_VEL_def)
    then have "max (- MAX_VEL) (vz a - g * dt) * dt < 0" using assms(1) by (simp add: mult_neg_pos)
    then show "z b = 0 \<and> vz b = 0" using b(2) z0 by simp
  qed
  have low: "z s \<le> 5/2 \<longrightarrow>
              (if z a + (vz a - g * dt) * dt < 0 then z b = 0 \<and> vz b = 0
               else vz b = vz a - g * dt \<and> z b = z a + (vz a - g * dt) * dt)"
  proof
    assume "z s \<le> 5/2"
    from low_fall_invariant[OF assms(1-8) this, of n] a(1)
    have en: "(vz a)\<^sup>2 \<le> 2 * g * (5/2 - z a)" by simp
    from falling_step[OF assms(1) a(2-8) en] b(1)
    show "if z a + (vz a - g * dt) * dt < 0 then z b = 0 \<and> vz b = 0
          else vz b = vz a - g * dt \<and> z b = z a + (vz a - g * dt) * dt"
      by simp
  qed
  show ?thesis using a(1) b ground low by simp
qed

text \<open>
  The theorem used at \<open>dt = 1/2\<close> on the default vehicle in its construction state, after
  one step (the second step is the one that reaches the ground).
\<close>

theorem free_fall_witness:
  "(0::real) < 1/2 \<and>
   thrust (new_quad 1 (3/10) (1/100) (1/100) (1/50)) = 0 \<and>
   vz (new_quad 1 (3/10) (1/100) (1/100) (1/50)) = 0 \<and>
   z (new_quad 1 (3/10) (1/100) (1/100) (1/50)) \<le> 5/2 \<and>
   (\<exists>a b. steps (new_quad 1 (3/10) (1/100) (1/100) (1/50)) (1/2) 1 = Inr a \<and>
          steps (new_quad 1 (3/10) (1/100) (1/100) (1/50)) (1/2) (Suc 1) = Inr b \<and>
          (if z a + (vz a - g * (1/2)) * (1/2) < 0 then z b = 0 \<and> vz b = 0
           else vz b = vz a - g * (1/2) \<and> z b = z a + (vz a - g * (1/2)) * (1/2)))"
proof -
  define s where "s = new_quad 1 (3/10) (1/100) (1/100) (1/50)"
  have h: "(0::real) < 1/2" "mass s \<noteq> 0" "Ix s \<noteq> 0" "Iy s \<noteq> 0" "Iz s \<noteq> 0"
    "thrust s = 0" "vz s = 0" "0 \<le> z s" "z s \<le> MAX_POS"
    by (simp_all add: s_def new_quad_def MAX_POS_def)
  have low: "z s \<le> 5/2" by (simp add: s_def new_quad_def)
  from free_fall[OF h, of 1] low h(1,6,7) show ?thesis
    unfolding s_def by blast
qed

section \<open>Properties of the PID controller\<close>

lemma PID_update_first:
  "first_call s \<Longrightarrow>
   PID_update s e dt =
     Inr (s\<lparr> integral := (case integrator_limit s of None \<Rightarrow> integral s + e * dt
                              | Some b \<Rightarrow> limit b (integral s + e * dt)),
              first_call := False, prev_error := e \<rparr>,
          kp s * e + ki s * (case integrator_limit s of None \<Rightarrow> integral s + e * dt
                              | Some b \<Rightarrow> limit b (integral s + e * dt)))"
  by (simp add: PID_update_def Let_def)

lemma PID_update_integral:
  "integral (pid_after (PID_update s e dt)) =
     (case integrator_limit s of None \<Rightarrow> integral s + e * dt
      | Some b \<Rightarrow> limit b (integral s + e * dt))"
  by (simp add: PID_update_def pid_after_def Let_def)

text \<open>
  C4.  For all gains, every limit and filter constant and every \<open>(error, dt)\<close>, the first
  \<open>update\<close> after construction, and the first one after \<open>reset()\<close> of any controller,
  returns normally; the value returned is \<open>kp * error\<close> plus \<open>ki\<close> times the updated
  (and, with a limit, saturated) integral, with no derivative contribution, and the
  first-call flag is cleared in the resulting controller.
\<close>

theorem first_update_no_derivative:
  "(\<exists>s'. PID_update (PID_init kp0 ki0 kd0 limit0 tau) e dt
            = Inr (s', kp0 * e + ki0 * integral s') \<and>
         integral s' = (case limit0 of None \<Rightarrow> e * dt | Some b \<Rightarrow> limit b (e * dt)) \<and>
         \<not> first_call s') \<and>
   (\<exists>s'. PID_update (PID_reset s) e dt = Inr (s', kp s * e + ki s * integral s') \<and>
         integral s' = (case integrator_limit s of None \<Rightarrow> e * dt
                        | Some b \<Rightarrow> limit b (e * dt)) \<and>
         \<not> first_call s')"
  by (simp add: PID_update_first PID_init_def PID_reset_def split: option.split)

text \<open>
  A negative limit, which no controller of the repository is configured with, pins the
  accumulator at its negation.
\<close>

lemma negative_limit_pins:
  "integrator_limit s = Some b \<Longrightarrow> b < 0 \<Longrightarrow> integral (pid_after (PID_update s e dt)) = - b"
  by (simp add: PID_update_integral limit_def)



section \<open>Properties of the cascaded controller\<close>

text \<open>
  C8.  Every call \<open>update_altitude(z_ref, z, vz, mass, g, dt)\<close> feeds exactly
  \<open>(z_ref - z) - 0.2 * vz\<close> to the altitude PID, leaves the three attitude PIDs alone, and
  returns \<open>mass * g\<close> plus that PID's output (it raises exactly when the PID update
  does).  On a freshly built controller the call returns, and with the configured gains
  the thrust is \<open>mass * g + 10 * u + 2 * sat(u * dt)\<close> for \<open>u = (z_ref - z) - 0.2 * vz\<close>
  and \<open>sat\<close> the saturation at \<open>2.5\<close>.
\<close>

theorem altitude_command:
  "update_altitude c z_ref0 z_actual vz_actual mass0 g0 dt =
     (case PID_update (alt_pid c) ((z_ref0 - z_actual) - (2/10) * vz_actual) dt of
        Inl (e, s) \<Rightarrow> Inl (e, c\<lparr> alt_pid := s \<rparr>)
      | Inr (s, out) \<Rightarrow> Inr (c\<lparr> alt_pid := s \<rparr>, mass0 * g0 + out)) \<and>
   (\<exists>c'. update_altitude CascadedController_init z_ref0 z_actual vz_actual mass0 g0 dt =
      Inr (c', mass0 * g0 + (10 * ((z_ref0 - z_actual) - (2/10) * vz_actual) +
                 2 * limit (5/2) (((z_ref0 - z_actual) - (2/10) * vz_actual) * dt))))"
  by (simp add: update_altitude_def Let_def CascadedController_init_def PID_init_def
        PID_update_first split: sum.split prod.split)

section \<open>Properties of the simulator\<close>

lemma sim_step_Inl:
  assumes "sim_step s dt = Inl (e, s')"
  shows "step_count s' = step_count s \<and> sim_time s' = sim_time s \<and>
       logged_states s' = logged_states s \<and> roll_ref s' = roll_ref s \<and> pitch_ref s' = pitch_ref s \<and>
       yaw_ref s' = yaw_ref s \<and> z_ref s' = z_ref s"
  using assms by (auto simp add: sim_step_def Let_def split: sum.splits prod.splits)

lemma sim_step_Inr:
  assumes "sim_step s dt = Inr (s', out)"
  shows "out = get_state (quad s') \<and> step_count s' = step_count s + 1 \<and>
       sim_time s' = sim_time s + dt \<and>
       roll_ref s' = roll_ref s \<and> pitch_ref s' = pitch_ref s \<and>
       yaw_ref s' = yaw_ref s \<and> z_ref s' = z_ref s \<and>
       logged_states s' =
         (if step_count s' mod 4 = 0 then
            (if length (logged_states s @ [(sim_time s', out)]) > 5000
             then tl (logged_states s @ [(sim_time s', out)])
             else logged_states s @ [(sim_time s', out)])
          else logged_states s)"
  using assms by (auto simp add: sim_step_def Let_def split: sum.splits prod.splits)








text \<open>
  C10.  \<open>reset()\<close> right after \<open>set_references(roll, pitch, yaw, z)\<close> changes, of the whole
  simulator, only the vehicle (by \<open>Quadcopter.reset\<close>), the four PIDs (by \<open>PID.reset\<close>), the
  elapsed time, the tick counter and the log; the four references hold the values just
  set.  The same holds with a \<open>step\<close> between the two calls.
\<close>

theorem reset_keeps_references:
  "sim_reset (set_references s r0 p0 y0 zr) =
     s\<lparr> quad := reset (quad s), controller := controller_reset (controller s),
        roll_ref := r0, pitch_ref := p0, yaw_ref := y0, z_ref := zr,
        sim_time := 0, step_count := 0, logged_states := [] \<rparr> \<and>
   roll_ref (sim_reset (set_references s r0 p0 y0 zr)) = r0 \<and>
   pitch_ref (sim_reset (set_references s r0 p0 y0 zr)) = p0 \<and>
   yaw_ref (sim_reset (set_references s r0 p0 y0 zr)) = y0 \<and>
   z_ref (sim_reset (set_references s r0 p0 y0 zr)) = zr \<and>
   roll_ref (sim_reset (sim_after (sim_step (set_references s r0 p0 y0 zr) dt))) = r0 \<and>
   pitch_ref (sim_reset (sim_after (sim_step (set_references s r0 p0 y0 zr) dt))) = p0 \<and>
   yaw_ref (sim_reset (sim_after (sim_step (set_references s r0 p0 y0 zr) dt))) = y0 \<and>
   z_ref (sim_reset (sim_after (sim_step (set_references s r0 p0 y0 zr) dt))) = zr"
proof -
  have keep: "roll_ref (sim_after (sim_step t dt)) = roll_ref t \<and>
              pitch_ref (sim_after (sim_step t dt)) = pitch_ref t \<and>
              yaw_ref (sim_after (sim_step t dt)) = yaw_ref t \<and>
              z_ref (sim_after (sim_step t dt)) = z_ref t" for t
  proof (cases "sim_step t dt")
    case (Inl u)
    then obtain e s' where r: "sim_step t dt = Inl (e, s')" by (cases u) simp
    then show ?thesis using sim_step_Inl[OF r] by (simp add: sim_after_def)
  next
    case (Inr u)
    then obtain s' out where r: "sim_step t dt = Inr (s', out)" by (cases u) simp
    then show ?thesis using sim_step_Inr[OF r] by (simp add: sim_after_def)
  qed
  show ?thesis using keep[of "set_references s r0 p0 y0 zr"]
    by (simp add: sim_reset_def set_references_def)
qed

end
